theory Spec2Isabelle
  imports Complex_Main "HOL-Library.Word"
begin

section \<open>Energino: machine types of the AVR target\<close>

text \<open>
  \<^verbatim>\<open>energino.h\<close> is compiled by avr-gcc (it includes \<^verbatim>\<open>avr/eeprom.h\<close>): \<^verbatim>\<open>int\<close> has
  16 bits, \<^verbatim>\<open>long\<close> and \<^verbatim>\<open>unsigned long\<close> have 32 bits and \<^verbatim>\<open>char\<close> has 8 bits. Signed
  values are words read with \<open>sint\<close>; arithmetic on them wraps around, which is what the
  AVR instructions do.
\<close>

type_synonym int16 = "16 word"
type_synonym long32 = "32 word"
type_synonym ulong32 = "32 word"

subsection \<open>The value type \<^verbatim>\<open>double\<close>\<close>

text \<open>
  A \<^verbatim>\<open>double\<close> is a finite number, an infinity or a NaN. Finite arithmetic is exact here
  (rounding, overflow and underflow of the binary format are not modelled); a division by
  zero and the arithmetic of infinities and NaN follow IEEE 754. Every divisor in the code
  is an integer converted to \<^verbatim>\<open>double\<close> or a positive literal, so a zero divisor is always
  the positive zero.
\<close>

datatype double = Finite real | PosInf | NegInf | NaN

fun dmul :: "double \<Rightarrow> double \<Rightarrow> double" where
  "dmul (Finite a) (Finite b) = Finite (a * b)"
| "dmul NaN _ = NaN"
| "dmul _ NaN = NaN"
| "dmul (Finite a) PosInf = (if a = 0 then NaN else if 0 < a then PosInf else NegInf)"
| "dmul (Finite a) NegInf = (if a = 0 then NaN else if 0 < a then NegInf else PosInf)"
| "dmul PosInf (Finite b) = (if b = 0 then NaN else if 0 < b then PosInf else NegInf)"
| "dmul NegInf (Finite b) = (if b = 0 then NaN else if 0 < b then NegInf else PosInf)"
| "dmul PosInf PosInf = PosInf"
| "dmul PosInf NegInf = NegInf"
| "dmul NegInf PosInf = NegInf"
| "dmul NegInf NegInf = PosInf"

fun ddiv :: "double \<Rightarrow> double \<Rightarrow> double" where
  "ddiv (Finite a) (Finite b) =
     (if b = 0 then (if a = 0 then NaN else if 0 < a then PosInf else NegInf)
      else Finite (a / b))"
| "ddiv NaN _ = NaN"
| "ddiv _ NaN = NaN"
| "ddiv (Finite a) PosInf = Finite 0"
| "ddiv (Finite a) NegInf = Finite 0"
| "ddiv PosInf (Finite b) = (if 0 \<le> b then PosInf else NegInf)"
| "ddiv NegInf (Finite b) = (if 0 \<le> b then NegInf else PosInf)"
| "ddiv PosInf PosInf = NaN"
| "ddiv PosInf NegInf = NaN"
| "ddiv NegInf PosInf = NaN"
| "ddiv NegInf NegInf = NaN"

fun dsub :: "double \<Rightarrow> double \<Rightarrow> double" where
  "dsub (Finite a) (Finite b) = Finite (a - b)"
| "dsub NaN _ = NaN"
| "dsub _ NaN = NaN"
| "dsub (Finite a) PosInf = NegInf"
| "dsub (Finite a) NegInf = PosInf"
| "dsub PosInf (Finite b) = PosInf"
| "dsub NegInf (Finite b) = NegInf"
| "dsub PosInf PosInf = NaN"
| "dsub PosInf NegInf = PosInf"
| "dsub NegInf PosInf = NegInf"
| "dsub NegInf NegInf = NaN"

text \<open>The comparisons \<^verbatim>\<open>x > y\<close> and \<^verbatim>\<open>x >= y\<close>: false as soon as one side is NaN.\<close>

fun dgt :: "double \<Rightarrow> double \<Rightarrow> bool" where
  "dgt (Finite a) (Finite b) = (b < a)"
| "dgt NaN _ = False"
| "dgt _ NaN = False"
| "dgt PosInf PosInf = False"
| "dgt PosInf _ = True"
| "dgt _ PosInf = False"
| "dgt NegInf _ = False"
| "dgt _ NegInf = True"

definition dge :: "double \<Rightarrow> double \<Rightarrow> bool" where
  "dge x y = (dgt x y \<or> (x \<noteq> NaN \<and> x = y))"

text \<open>Conversions between the integer types and \<^verbatim>\<open>double\<close>.\<close>

definition double_of_int :: "int16 \<Rightarrow> double" where
  "double_of_int x = Finite (real_of_int (sint x))"

definition double_of_long :: "long32 \<Rightarrow> double" where
  "double_of_long x = Finite (real_of_int (sint x))"

text \<open>
  A \<^verbatim>\<open>double\<close> converted to an integer type loses its fraction (truncation toward zero).
  C leaves the conversion undefined when the truncated value is outside the range of the
  target type, and for an infinity or a NaN: the model returns \<open>None\<close> there.
\<close>

definition trunc :: "real \<Rightarrow> int" where
  "trunc r = (if 0 \<le> r then \<lfloor>r\<rfloor> else \<lceil>r\<rceil>)"

fun int_of_double :: "double \<Rightarrow> int16 option" where
  "int_of_double (Finite r) =
     (if - (2 ^ 15) \<le> trunc r \<and> trunc r < 2 ^ 15 then Some (word_of_int (trunc r))
      else None)"
| "int_of_double _ = None"

fun long_of_double :: "double \<Rightarrow> long32 option" where
  "long_of_double (Finite r) =
     (if - (2 ^ 31) \<le> trunc r \<and> trunc r < 2 ^ 31 then Some (word_of_int (trunc r))
      else None)"
| "long_of_double _ = None"

section \<open>The permanent configuration\<close>

text \<open>
  \<^verbatim>\<open>struct settings_t\<close>. The three character arrays are lists of bytes: \<open>magic\<close> has 12,
  \<open>apikey\<close> 49 and \<open>feedsurl\<close> 60.
\<close>

record settings_t =
  magic :: string
  revision :: int16
  period :: int16
  r1 :: int16
  r2 :: int16
  offset :: int16
  sensitivity :: int16
  relaypin :: int16
  currentpin :: int16
  voltagepin :: int16
  apikey :: string
  feedid :: ulong32
  feedsurl :: string

definition DEFAULT_AREF :: int16 where
  "DEFAULT_AREF = 5000"

section \<open>Unit conversion\<close>

definition res :: "int16 \<Rightarrow> double" where
  "res aref = ddiv (double_of_int aref) (Finite 1024)"

text \<open>
  \<^verbatim>\<open>getVError\<close>: \<^verbatim>\<open>(res(aref) * (settings.r1 + settings.r2)) / settings.r2\<close>, converted to
  \<^verbatim>\<open>int\<close> by the return. The sum of the two resistors is a 16-bit sum.
\<close>

definition getVError :: "settings_t \<Rightarrow> int16 \<Rightarrow> int16 option" where
  "getVError s aref =
     int_of_double (ddiv (dmul (res aref) (double_of_int (r1 s + r2 s))) (double_of_int (r2 s)))"

definition getIError :: "settings_t \<Rightarrow> int16 \<Rightarrow> int16 option" where
  "getIError s aref =
     int_of_double (dmul (ddiv (res aref) (double_of_int (sensitivity s))) (Finite 1000))"

definition getAvgVoltage :: "settings_t \<Rightarrow> double \<Rightarrow> int16 \<Rightarrow> double" where
  "getAvgVoltage s val aref =
     (let v_out = dmul val (res aref);
          output = ddiv (dmul v_out (double_of_int (r1 s + r2 s))) (double_of_int (r2 s))
      in if dgt output (Finite 0) then ddiv output (Finite 1000) else Finite 0)"

definition getAvgCurrent :: "settings_t \<Rightarrow> double \<Rightarrow> int16 \<Rightarrow> double" where
  "getAvgCurrent s val aref =
     (let v_out = dmul val (res aref);
          output = ddiv (dsub v_out (double_of_int (offset s))) (double_of_int (sensitivity s))
      in if dgt output (Finite 0) then output else Finite 0)"

definition getAvgPower :: "settings_t \<Rightarrow> double \<Rightarrow> double \<Rightarrow> int16 \<Rightarrow> double" where
  "getAvgPower s voltage current aref =
     dmul (getAvgVoltage s voltage aref) (getAvgCurrent s current aref)"

text \<open>The overloads without \<^verbatim>\<open>aref\<close> pass the global \<^verbatim>\<open>DEFAULT_AREF\<close>.\<close>

definition getAvgVoltage_default :: "settings_t \<Rightarrow> double \<Rightarrow> double" where
  "getAvgVoltage_default s val = getAvgVoltage s val DEFAULT_AREF"

definition getAvgCurrent_default :: "settings_t \<Rightarrow> double \<Rightarrow> double" where
  "getAvgCurrent_default s val = getAvgCurrent s val DEFAULT_AREF"

definition getAvgPower_default :: "settings_t \<Rightarrow> double \<Rightarrow> double \<Rightarrow> double" where
  "getAvgPower_default s voltage current = getAvgPower s voltage current DEFAULT_AREF"

section \<open>The board: serial port, EEPROM, pins and ADC\<close>

text \<open>
  The state the library works on: the global \<^verbatim>\<open>settings\<close>, the bytes waiting in the serial
  receive buffer, the bytes written to the serial port so far, the blocks written to the
  EEPROM (newest first), the calls of \<^verbatim>\<open>digitalWrite\<close> (newest first) and the number of
  ADC conversions made so far. Nothing arrives on the serial line during a call.
\<close>

record world =
  settings :: settings_t
  serial_in :: string
  serial_out :: string
  eeprom :: "settings_t list"
  pin_writes :: "(8 word \<times> bool) list"
  adc_reads :: nat

abbreviation NUL :: char where
  "NUL \<equiv> CHR 0x00"

definition CRLF :: string where
  "CRLF = [CHR 0x0D, CHR 0x0A]"

definition Serial_available :: "world \<Rightarrow> nat" where
  "Serial_available w = length (serial_in w)"

text \<open>\<^verbatim>\<open>Serial.read()\<close> returns the first waiting byte as an \<^verbatim>\<open>int\<close>, or -1 when none waits.\<close>

definition Serial_read :: "world \<Rightarrow> int \<times> world" where
  "Serial_read w =
     (case serial_in w of
        [] \<Rightarrow> (- 1, w)
      | c # cs \<Rightarrow> (of_char c, w\<lparr>serial_in := cs\<rparr>))"

text \<open>A character array read as a C string ends before its first NUL.\<close>

definition cstring :: "string \<Rightarrow> string" where
  "cstring xs = takeWhile (\<lambda>c. c \<noteq> NUL) xs"

definition Serial_print :: "string \<Rightarrow> world \<Rightarrow> world" where
  "Serial_print s w = w\<lparr>serial_out := serial_out w @ s\<rparr>"

definition Serial_println :: "string \<Rightarrow> world \<Rightarrow> world" where
  "Serial_println s w = Serial_print CRLF (Serial_print s w)"

text \<open>Integers are printed in decimal, a negative one after a minus sign.\<close>

fun show_nat :: "nat \<Rightarrow> string" where
  "show_nat n =
     (if n < 10 then [char_of (48 + n)]
      else show_nat (n div 10) @ [char_of (48 + n mod 10)])"

declare show_nat.simps [simp del]

definition show_int :: "int \<Rightarrow> string" where
  "show_int n = (if n < 0 then CHR ''-'' # show_nat (nat (- n)) else show_nat (nat n))"

definition Serial_print_int :: "int16 \<Rightarrow> world \<Rightarrow> world" where
  "Serial_print_int n w = Serial_print (show_int (sint n)) w"

definition Serial_println_int :: "int16 \<Rightarrow> world \<Rightarrow> world" where
  "Serial_println_int n w = Serial_println (show_int (sint n)) w"

definition Serial_println_long :: "long32 \<Rightarrow> world \<Rightarrow> world" where
  "Serial_println_long n w = Serial_println (show_int (sint n)) w"

definition digitalWrite :: "int16 \<Rightarrow> bool \<Rightarrow> world \<Rightarrow> world" where
  "digitalWrite pin level w = w\<lparr>pin_writes := (ucast pin, level) # pin_writes w\<rparr>"

definition saveSettings :: "world \<Rightarrow> world" where
  "saveSettings w = w\<lparr>eeprom := settings w # eeprom w\<rparr>"

definition loadSettings :: "world \<Rightarrow> world" where
  "loadSettings w = (case eeprom w of [] \<Rightarrow> w | s # _ \<Rightarrow> w\<lparr>settings := s\<rparr>)"

definition dumpSettings :: "world \<Rightarrow> world" where
  "dumpSettings w0 =
     (let s = settings w0;
          w = Serial_print ''@magic: '' w0;
          w = Serial_println (cstring (magic s)) w;
          w = Serial_print ''@revision: '' w;
          w = Serial_println_int (revision s) w;
          w = Serial_print ''@period: '' w;
          w = Serial_print_int (period s) w;
          w = Serial_println '' ms'' w;
          w = Serial_print ''@r1: '' w;
          w = Serial_print_int (r1 s) w;
          w = Serial_println '' Kohm'' w;
          w = Serial_print ''@r2: '' w;
          w = Serial_print_int (r2 s) w;
          w = Serial_println '' Kohm'' w;
          w = Serial_print ''@offset: '' w;
          w = Serial_print_int (offset s) w;
          w = Serial_println '' mV'' w;
          w = Serial_print ''@sensitivity: '' w;
          w = Serial_print_int (sensitivity s) w;
          w = Serial_println '' mV/A'' w;
          w = Serial_print ''@relaypin: '' w;
          w = Serial_println_int (relaypin s) w;
          w = Serial_print ''@currentpin: '' w;
          w = Serial_println_int (currentpin s) w;
          w = Serial_print ''@voltagepin: '' w
      in Serial_println_int (voltagepin s) w)"

section \<open>The C library: \<^verbatim>\<open>atoi\<close>, \<^verbatim>\<open>atol\<close> and \<^verbatim>\<open>strncpy\<close>\<close>

text \<open>
  \<^verbatim>\<open>atoi\<close> and \<^verbatim>\<open>atol\<close> skip leading white space, read an optional sign and then decimal
  digits up to the first other character (the terminating NUL at the latest). avr-libc
  accumulates the digits in the result type without an overflow check, so the value is
  the number read, wrapped to 16 or 32 bits.
\<close>

definition isspace :: "char \<Rightarrow> bool" where
  "isspace c = (c = CHR '' '' \<or> c = CHR 0x09 \<or> c = CHR 0x0A \<or> c = CHR 0x0B
                \<or> c = CHR 0x0C \<or> c = CHR 0x0D)"

definition isdigit :: "char \<Rightarrow> bool" where
  "isdigit c = (c \<in> set ''0123456789'')"

fun digits_value :: "int \<Rightarrow> string \<Rightarrow> int" where
  "digits_value acc [] = acc"
| "digits_value acc (c # cs) =
     (if isdigit c then digits_value (acc * 10 + (of_char c - 48)) cs else acc)"

definition signed_value :: "string \<Rightarrow> int" where
  "signed_value s =
     (case s of
        [] \<Rightarrow> 0
      | c # cs \<Rightarrow>
          if c = CHR ''-'' then - digits_value 0 cs
          else if c = CHR ''+'' then digits_value 0 cs
          else digits_value 0 s)"

definition parse_decimal :: "string \<Rightarrow> int" where
  "parse_decimal s = signed_value (dropWhile isspace s)"

definition atoi :: "string \<Rightarrow> int16" where
  "atoi s = word_of_int (parse_decimal s)"

definition atol :: "string \<Rightarrow> long32" where
  "atol s = word_of_int (parse_decimal s)"

text \<open>
  \<^verbatim>\<open>strncpy(dst, src, n)\<close> writes exactly \<open>n\<close> bytes to \<open>dst\<close>: the characters of the C string
  \<open>src\<close>, at most \<open>n\<close> of them, then NULs. Both calls in the library have \<open>n\<close> equal to the
  size of the destination and at most the size of the source array.
\<close>

definition strncpy :: "string \<Rightarrow> nat \<Rightarrow> string" where
  "strncpy src n = take n (cstring src) @ replicate (n - length (cstring src)) NUL"

section \<open>The serial command parser\<close>

text \<open>
  A write outside \<^verbatim>\<open>char inputBytes[60]\<close> has no defined behaviour in C: the call ends
  with the fault \<open>BufferOverflow\<close>. \<open>UndefinedConversion\<close> is a \<^verbatim>\<open>double\<close> that does not fit
  the integer type it is converted to.
\<close>

datatype fault = BufferOverflow | UndefinedConversion

text \<open>
  The loop that reads the command from the serial port, from the loop counter \<open>i\<close> on.
  It ends by the \<^verbatim>\<open>return\<close> at a first byte other than \<^verbatim>\<open>#\<close>, by a write outside
  \<^verbatim>\<open>inputBytes\<close>, or normally, with the final \<open>i\<close>, \<^verbatim>\<open>cmd\<close> and \<^verbatim>\<open>inputBytes\<close>.
\<close>

datatype read_result =
    Returned world
  | OutOfBounds
  | Parsed nat char string world

function read_command :: "nat \<Rightarrow> nat \<Rightarrow> char \<Rightarrow> string \<Rightarrow> world \<Rightarrow> read_result" where
  "read_command i serAva cmd inputBytes w =
     (if i < serAva then
        (case Serial_read w of
           (r, w') \<Rightarrow>
             (let chr = char_of r in
              if i = 0 then
                (if chr \<noteq> CHR ''#'' then Returned w'
                 else read_command (i + 1) serAva cmd inputBytes w')
              else if i = 1 then read_command (i + 1) serAva chr inputBytes w'
              else if i - 2 < length inputBytes
                then read_command (i + 1) serAva cmd (inputBytes[i - 2 := chr]) w'
              else OutOfBounds))
      else Parsed i cmd inputBytes w)"
  by pat_completeness auto
termination
  by (relation "measure (\<lambda>(i, serAva, cmd, inputBytes, w). serAva - i)") auto

declare read_command.simps [simp del]

text \<open>The 1000 conversions of the command \<^verbatim>\<open>T\<close>, summed in a \<^verbatim>\<open>long\<close>.\<close>

fun sum_samples :: "(8 word \<Rightarrow> nat \<Rightarrow> int16) \<Rightarrow> 8 word \<Rightarrow> nat \<Rightarrow> nat \<Rightarrow> long32 \<Rightarrow> long32" where
  "sum_samples analogRead pin k 0 val = val"
| "sum_samples analogRead pin k (Suc n) val =
     sum_samples analogRead pin (Suc k) n (val + scast (analogRead pin k))"

text \<open>
  The second half of \<^verbatim>\<open>serParseCommand\<close>, from the comment \<^verbatim>\<open>execute command\<close> on.
  \<^verbatim>\<open>reset()\<close> is declared in the library and defined by the sketch that includes it, and
  \<^verbatim>\<open>analogRead\<close> is the board's ADC: both are parameters, \<open>analogRead pin k\<close> being the
  result of the conversion number \<open>k\<close> on \<open>pin\<close>.
\<close>

definition execute_command ::
  "(world \<Rightarrow> world) \<Rightarrow> (8 word \<Rightarrow> nat \<Rightarrow> int16) \<Rightarrow> int16 \<Rightarrow> char \<Rightarrow> string \<Rightarrow> world \<Rightarrow> fault + world"
where
  "execute_command reset analogRead aref cmd inputBytes w =
     (if cmd = CHR ''R'' then
        Inr (saveSettings (reset (Serial_println ''@reset'' w)))
      else if cmd = CHR ''Z'' then
        Inr (saveSettings (dumpSettings w))
      else if cmd = CHR ''T'' then
        (let val = sum_samples analogRead (ucast (currentpin (settings w))) (adc_reads w) 1000 0;
             w1 = w\<lparr>adc_reads := adc_reads w + 1000\<rparr>
         in case long_of_double (ddiv (dmul (double_of_long val) (res aref)) (double_of_int 1000)) of
              None \<Rightarrow> Inl UndefinedConversion
            | Some v_out \<Rightarrow>
                (let w2 = Serial_print ''@offset: '' w1;
                     w3 = Serial_println_long v_out w2;
                     w4 = w3\<lparr>settings := (settings w3)\<lparr>offset := ucast v_out\<rparr>\<rparr>
                 in Inr (saveSettings w4)))
      else if cmd = CHR ''F'' then
        (let val = atol inputBytes;
             w1 = (if 0 \<le> sint val then w\<lparr>settings := (settings w)\<lparr>feedid := val\<rparr>\<rparr> else w)
         in Inr (saveSettings w1))
      else if cmd = CHR ''K'' then
        (let key = (strncpy inputBytes 49)[48 := NUL]
         in Inr (saveSettings (w\<lparr>settings := (settings w)\<lparr>apikey := key\<rparr>\<rparr>)))
      else if cmd = CHR ''U'' then
        (let url = (strncpy inputBytes 60)[59 := NUL]
         in Inr (saveSettings (w\<lparr>settings := (settings w)\<lparr>feedsurl := url\<rparr>\<rparr>)))
      else
        (let val = atoi inputBytes in
         if sint val < 0 then Inr w
         else if cmd = CHR ''P'' then
           (let w1 = w\<lparr>settings := (settings w)\<lparr>period := val\<rparr>\<rparr>;
                w2 = Serial_print ''@period: '' w1;
                w3 = Serial_print_int (period (settings w2)) w2
            in Inr (saveSettings (Serial_println ''ms'' w3)))
         else if cmd = CHR ''A'' then
           (let w1 = w\<lparr>settings := (settings w)\<lparr>r1 := val\<rparr>\<rparr>;
                w2 = Serial_print ''R1: '' w1;
                w3 = Serial_print_int (r1 (settings w2)) w2
            in Inr (saveSettings (Serial_println '' Kohm'' w3)))
         else if cmd = CHR ''B'' then
           (let w1 = w\<lparr>settings := (settings w)\<lparr>r2 := val\<rparr>\<rparr>;
                w2 = Serial_print ''R2: '' w1;
                w3 = Serial_print_int (r2 (settings w2)) w2
            in Inr (saveSettings (Serial_println '' Kohm'' w3)))
         else if cmd = CHR ''C'' then
           (let w1 = w\<lparr>settings := (settings w)\<lparr>offset := val\<rparr>\<rparr>;
                w2 = Serial_print ''Offeset: '' w1;
                w3 = Serial_print_int (offset (settings w2)) w2
            in Inr (saveSettings (Serial_println '' mV'' w3)))
         else if cmd = CHR ''D'' then
           (let w1 = w\<lparr>settings := (settings w)\<lparr>sensitivity := val\<rparr>\<rparr>;
                w2 = Serial_print ''Sensitivity: '' w1;
                w3 = Serial_print_int (sensitivity (settings w2)) w2
            in Inr (saveSettings (Serial_println '' mV/A'' w3)))
         else if cmd = CHR ''S'' then
           (if 0 < sint val then
              Inr (saveSettings (digitalWrite (relaypin (settings w)) True
                     (Serial_println ''@switch: high'' w)))
            else
              Inr (saveSettings (digitalWrite (relaypin (settings w)) False
                     (Serial_println ''@switch: low'' w))))
         else Inr (saveSettings w)))"

text \<open>
  \<^verbatim>\<open>serParseCommand(aref)\<close>: nothing to do without input; otherwise the read loop over the
  \<open>serAva\<close> waiting bytes, the terminator written at \<^verbatim>\<open>inputBytes[i]\<close>, and the command.
\<close>

definition serParseCommand ::
  "(world \<Rightarrow> world) \<Rightarrow> (8 word \<Rightarrow> nat \<Rightarrow> int16) \<Rightarrow> int16 \<Rightarrow> world \<Rightarrow> fault + world"
where
  "serParseCommand reset analogRead aref w =
     (if Serial_available w = 0 then Inr w
      else
        (let serAva = Serial_available w in
         case read_command 0 serAva NUL (replicate 60 NUL) w of
           Returned w' \<Rightarrow> Inr w'
         | OutOfBounds \<Rightarrow> Inl BufferOverflow
         | Parsed i cmd inputBytes w' \<Rightarrow>
             if i < length inputBytes
               then execute_command reset analogRead aref cmd (inputBytes[i := NUL]) w'
             else Inl BufferOverflow))"

definition serParseCommand_default ::
  "(world \<Rightarrow> world) \<Rightarrow> (8 word \<Rightarrow> nat \<Rightarrow> int16) \<Rightarrow> world \<Rightarrow> fault + world"
where
  "serParseCommand_default reset analogRead w = serParseCommand reset analogRead DEFAULT_AREF w"

section \<open>A concrete board\<close>

text \<open>
  The defaults of an Energino sketch, an idle board holding them, a \<^verbatim>\<open>reset()\<close> that
  restores them and an ADC that always converts to 512.
\<close>

definition example_settings :: settings_t where
  "example_settings =
     \<lparr>magic = ''Energino'' @ replicate 4 NUL, revision = 1, period = 2000, r1 = 100, r2 = 10,
      offset = 2500, sensitivity = 185, relaypin = 2, currentpin = 0, voltagepin = 1,
      apikey = replicate 49 NUL, feedid = 0, feedsurl = replicate 60 NUL\<rparr>"

definition example_world :: world where
  "example_world =
     \<lparr>settings = example_settings, serial_in = [], serial_out = [], eeprom = [],
      pin_writes = [], adc_reads = 0\<rparr>"

definition example_reset :: "world \<Rightarrow> world" where
  "example_reset w = w\<lparr>settings := example_settings\<rparr>"

definition example_adc :: "8 word \<Rightarrow> nat \<Rightarrow> int16" where
  "example_adc pin k = 512"

text \<open>
  The value of \<^verbatim>\<open>cmd\<close> after the read loop, for the bytes \<open>rest\<close> that follow the marker:
  the first of them, or the initial NUL when the marker came alone.
\<close>

definition command_byte :: "string \<Rightarrow> char" where
  "command_byte rest = (case rest of [] \<Rightarrow> NUL | c # _ \<Rightarrow> c)"

text \<open>
  \<open>dyadic24 k x\<close>: \<open>x\<close> is an integer multiple of \<open>2\<^sup>-\<^sup>k\<close> whose multiplier is below
  \<open>2\<^sup>2\<^sup>4\<close> in magnitude. Such a number is a value of the 32-bit binary format that avr-gcc
  uses for \<^verbatim>\<open>double\<close>, so an operation with this exact result is not rounded.
\<close>

definition dyadic24 :: "nat \<Rightarrow> real \<Rightarrow> bool" where
  "dyadic24 k x = (real_of_int \<lfloor>x * 2 ^ k\<rfloor> = x * 2 ^ k \<and> \<bar>x * 2 ^ k\<bar> < 2 ^ 24)"

section \<open>Unit conversion: results\<close>

lemma clamp_nonneg:
  "dge (if dgt out (Finite 0) then out else Finite 0) (Finite 0)"
  by (cases out) (simp_all add: dge_def)

lemma clamp_div_nonneg:
  "dge (if dgt out (Finite 0) then ddiv out (Finite 1000) else Finite 0) (Finite 0)"
  by (cases out) (simp_all add: dge_def)

lemma getAvgVoltage_example: "getAvgVoltage example_settings (Finite 512) 5000 = Finite 27.5"
  by (simp add: getAvgVoltage_def example_settings_def res_def double_of_int_def)

lemma getAvgCurrent_example_clamped: "getAvgCurrent example_settings (Finite 100) 5000 = Finite 0"
  by (simp add: getAvgCurrent_def example_settings_def res_def double_of_int_def)

lemma getAvgVoltage_zero_divisor:
  "getAvgVoltage (example_settings\<lparr>r2 := 0\<rparr>) (Finite 512) 5000 = PosInf"
  by (simp add: getAvgVoltage_def example_settings_def res_def double_of_int_def)

text \<open>
  C6. For every raw sample value \<open>v \<ge> 0\<close>, every reference voltage and every calibration
  (\<open>r1\<close>, \<open>r2\<close>, \<open>offset\<close>, \<open>sensitivity\<close>, zero divisors included), \<^verbatim>\<open>getAvgVoltage\<close> and
  \<^verbatim>\<open>getAvgCurrent\<close> return a value that is \<open>\<ge> 0\<close>: an intermediate result that is negative
  (or NaN) is replaced by 0.
\<close>

theorem getAvg_nonnegative:
  assumes "dge v (Finite 0)"
  shows "dge (getAvgVoltage s v aref) (Finite 0) \<and> dge (getAvgCurrent s v aref) (Finite 0)"
  by (simp add: getAvgVoltage_def getAvgCurrent_def Let_def clamp_nonneg clamp_div_nonneg
        del: dgt.simps ddiv.simps)

theorem getAvg_nonnegative_witness:
  "dge (Finite 100) (Finite 0)
   \<and> dge (getAvgVoltage example_settings (Finite 100) 5000) (Finite 0)
   \<and> dge (getAvgCurrent example_settings (Finite 100) 5000) (Finite 0)"
proof -
  have h: "dge (Finite 100) (Finite 0)" by (simp add: dge_def)
  from getAvg_nonnegative [OF h, of example_settings 5000] h show ?thesis by blast
qed

text \<open>
  C7. \<^verbatim>\<open>getAvgPower(v, i, aref)\<close> is the product of \<^verbatim>\<open>getAvgVoltage(v, aref)\<close> and
  \<^verbatim>\<open>getAvgCurrent(i, aref)\<close>, and the overload without \<^verbatim>\<open>aref\<close> is \<^verbatim>\<open>getAvgPower(v, i, 5000)\<close>.
\<close>

theorem getAvgPower_composition:
  "getAvgPower s v i aref = dmul (getAvgVoltage s v aref) (getAvgCurrent s i aref)
   \<and> getAvgPower_default s v i = getAvgPower s v i 5000"
  by (simp add: getAvgPower_def getAvgPower_default_def DEFAULT_AREF_def)

text \<open>
  The three values computed by \<^verbatim>\<open>getVError(5000)\<close> with \<open>r1 = 100\<close> and \<open>r2 = 10\<close> are values
  of the 32-bit binary format, so the exact arithmetic of the model is the arithmetic of
  the board there.
\<close>

lemma verror_values_exact:
  "dyadic24 7 4.8828125 \<and> dyadic24 6 (4.8828125 * 110) \<and> dyadic24 7 (4.8828125 * 110 / 10)"
  by (simp add: dyadic24_def)

text \<open>
  C8. With \<open>r1 = 100\<close>, \<open>r2 = 10\<close> and \<open>aref = 5000\<close>: \<open>res(5000) = 4.8828125\<close>, the quotient
  \<open>4.8828125 * 110 / 10\<close> is \<open>53.7109375\<close>, and \<^verbatim>\<open>getVError(5000)\<close> returns it truncated toward
  zero, the integer 53.
\<close>

theorem getVError_example:
  assumes "r1 s = 100" "r2 s = 10"
  shows "res 5000 = Finite 4.8828125
     \<and> ddiv (dmul (res 5000) (double_of_int (r1 s + r2 s))) (double_of_int (r2 s))
         = Finite 53.7109375
     \<and> getVError s 5000 = Some 53"
  using assms by (simp add: getVError_def res_def double_of_int_def trunc_def)

theorem getVError_example_witness:
  "r1 example_settings = 100 \<and> r2 example_settings = 10 \<and> res 5000 = Finite 4.8828125
     \<and> ddiv (dmul (res 5000) (double_of_int (r1 example_settings + r2 example_settings)))
          (double_of_int (r2 example_settings)) = Finite 53.7109375
     \<and> getVError example_settings 5000 = Some 53"
proof -
  have h1: "r1 example_settings = 100" and h2: "r2 example_settings = 10"
    by (simp_all add: example_settings_def)
  from getVError_example [OF h1 h2] h1 h2 show ?thesis by blast
qed

section \<open>The read loop\<close>

lemma replicate_update_same: "(replicate n x)[i := x] = replicate n x"
  by (induction n arbitrary: i) (auto split: nat.splits)

lemma Serial_read_Cons:
  "serial_in w = c # cs \<Longrightarrow> Serial_read w = (of_char c, w\<lparr>serial_in := cs\<rparr>)"
  by (simp add: Serial_read_def)

lemma read_command_first:
  assumes "serial_in w = c # cs" "0 < n"
  shows "read_command 0 n cmd buf w =
           (if c \<noteq> CHR ''#'' then Returned (w\<lparr>serial_in := cs\<rparr>)
            else read_command (Suc 0) n cmd buf (w\<lparr>serial_in := cs\<rparr>))"
  using assms by (subst read_command.simps) (simp add: Serial_read_Cons)

lemma read_command_second:
  assumes "serial_in w = c # cs" "Suc 0 < n"
  shows "read_command (Suc 0) n cmd buf w = read_command (Suc (Suc 0)) n c buf (w\<lparr>serial_in := cs\<rparr>)"
  using assms by (subst read_command.simps) (simp add: Serial_read_Cons)

lemma read_command_end:
  "read_command n n cmd buf w = Parsed n cmd buf w"
  by (subst read_command.simps) simp

lemma read_command_payload:
  assumes "j \<le> 60" "length buf = 60" "serial_in w = xs" "n = Suc (Suc (j + length xs))"
  shows "read_command (Suc (Suc j)) n cmd buf w =
           (if n \<le> 62 then Parsed n cmd (take j buf @ xs @ drop (n - 2) buf) (w\<lparr>serial_in := []\<rparr>)
            else OutOfBounds)"
  using assms
proof (induction xs arbitrary: j buf w)
  case Nil
  then have "w\<lparr>serial_in := []\<rparr> = w" by simp
  with Nil show ?case
    by (simp add: read_command_end)
next
  case (Cons c cs)
  show ?case
  proof (cases "j = 60")
    case True
    with Cons.prems show ?thesis
      by (subst read_command.simps) (simp add: Serial_read_Cons)
  next
    case False
    with Cons.prems have lt: "j < length buf" by simp
    have step: "read_command (Suc (Suc j)) n cmd buf w
        = read_command (Suc (Suc (Suc j))) n cmd (buf[j := c]) (w\<lparr>serial_in := cs\<rparr>)"
      using Cons.prems lt by (subst read_command.simps) (simp add: Serial_read_Cons)
    have ih: "read_command (Suc (Suc (Suc j))) n cmd (buf[j := c]) (w\<lparr>serial_in := cs\<rparr>) =
        (if n \<le> 62 then Parsed n cmd (take (Suc j) (buf[j := c]) @ cs @ drop (n - 2) (buf[j := c]))
             (w\<lparr>serial_in := cs\<rparr>\<lparr>serial_in := []\<rparr>) else OutOfBounds)"
      using Cons.prems False by (intro Cons.IH) simp_all
    have t: "take (Suc j) (buf[j := c]) = take j buf @ [c]"
      using lt by (simp add: take_Suc_conv_app_nth)
    have d: "drop (n - 2) (buf[j := c]) = drop (n - 2) buf"
      using Cons.prems by simp
    show ?thesis
      by (simp add: step ih t d)
  qed
qed

lemma serParseCommand_frame:
  assumes "serial_in w = CHR ''#'' # cmd # payload"
  shows "serParseCommand reset rd aref w =
           (if length payload \<le> 57
            then execute_command reset rd aref cmd (payload @ replicate (60 - length payload) NUL)
                   (w\<lparr>serial_in := []\<rparr>)
            else Inl BufferOverflow)"
proof -
  let ?n = "Suc (Suc (length payload))"
  let ?buf = "replicate 60 NUL"
  have s0: "read_command 0 ?n NUL ?buf w = read_command (Suc 0) ?n NUL ?buf (w\<lparr>serial_in := cmd # payload\<rparr>)"
    using assms by (simp add: read_command_first)
  have s1: "read_command (Suc 0) ?n NUL ?buf (w\<lparr>serial_in := cmd # payload\<rparr>)
          = read_command (Suc (Suc 0)) ?n cmd ?buf (w\<lparr>serial_in := payload\<rparr>)"
    by (simp add: read_command_second)
  have s2: "read_command (Suc (Suc 0)) ?n cmd ?buf (w\<lparr>serial_in := payload\<rparr>) =
      (if ?n \<le> 62 then Parsed ?n cmd (take 0 ?buf @ payload @ drop (?n - 2) ?buf)
          (w\<lparr>serial_in := payload\<rparr>\<lparr>serial_in := []\<rparr>) else OutOfBounds)"
    by (rule read_command_payload) simp_all
  have nul: "(payload @ replicate (60 - length payload) NUL)[Suc (Suc (length payload)) := NUL]
      = payload @ replicate (60 - length payload) NUL"
    by (simp add: list_update_append replicate_update_same)
  show ?thesis
    using assms nul s2 by (simp add: serParseCommand_def Serial_available_def s0 s1)
qed

lemma serParseCommand_bare_marker:
  assumes "serial_in w = [CHR ''#'']"
  shows "serParseCommand reset rd aref w =
           execute_command reset rd aref NUL (replicate 60 NUL) (w\<lparr>serial_in := []\<rparr>)"
proof -
  have "(replicate 60 NUL)[Suc 0 := NUL] = replicate 60 NUL"
    by (rule replicate_update_same)
  with assms show ?thesis
    by (simp add: serParseCommand_def Serial_available_def read_command_first read_command_end)
qed

lemma serParseCommand_not_a_frame:
  assumes "serial_in w = c # rest" "c \<noteq> CHR ''#''"
  shows "serParseCommand reset rd aref w = Inr (w\<lparr>serial_in := rest\<rparr>)"
  using assms
  by (simp add: serParseCommand_def Serial_available_def read_command_first)

lemma serParseCommand_no_input:
  assumes "serial_in w = []"
  shows "serParseCommand reset rd aref w = Inr w"
  using assms
  by (simp add: serParseCommand_def Serial_available_def)

section \<open>Padding with NUL does not change what the C library reads\<close>

lemma isdigit_NUL: "\<not> isdigit NUL"
  by (simp add: isdigit_def)

lemma isspace_NUL: "\<not> isspace NUL"
  by (simp add: isspace_def)

lemma digits_value_replicate_NUL: "digits_value acc (replicate k NUL) = acc"
  by (cases k) (simp_all add: isdigit_NUL)

lemma digits_value_padded: "digits_value acc (p @ replicate k NUL) = digits_value acc p"
  by (induction p arbitrary: acc) (simp_all add: digits_value_replicate_NUL)

lemma signed_value_replicate_NUL: "signed_value (replicate k NUL) = 0"
  by (cases k) (simp_all add: signed_value_def isdigit_NUL)

lemma signed_value_padded: "signed_value (p @ replicate k NUL) = signed_value p"
proof (cases p)
  case Nil
  then show ?thesis by (simp add: signed_value_replicate_NUL) (simp add: signed_value_def)
next
  case (Cons c cs)
  have "digits_value 0 (c # cs @ replicate k NUL) = digits_value 0 (c # cs)"
    using digits_value_padded [of 0 "c # cs" k] by simp
  with Cons show ?thesis
    by (simp add: signed_value_def digits_value_padded del: digits_value.simps)
qed

lemma dropWhile_isspace_padded:
  "dropWhile isspace (p @ replicate k NUL) = dropWhile isspace p @ replicate k NUL"
proof (induction p)
  case Nil
  show ?case by (cases k) (simp_all add: isspace_NUL)
next
  case (Cons c cs)
  then show ?case by simp
qed

lemma parse_decimal_padded: "parse_decimal (p @ replicate k NUL) = parse_decimal p"
  by (simp add: parse_decimal_def dropWhile_isspace_padded signed_value_padded)

lemma atoi_padded: "atoi (p @ replicate k NUL) = atoi p"
  by (simp add: atoi_def parse_decimal_padded)

lemma atol_padded: "atol (p @ replicate k NUL) = atol p"
  by (simp add: atol_def parse_decimal_padded)

lemma cstring_padded: "cstring (p @ replicate k NUL) = cstring p"
proof (induction p)
  case Nil
  show ?case by (cases k) (simp_all add: cstring_def)
next
  case (Cons c cs)
  then show ?case by (simp add: cstring_def)
qed

lemma strncpy_padded: "strncpy (p @ replicate k NUL) n = strncpy p n"
  by (simp add: strncpy_def cstring_padded)

lemma atoi_empty: "atoi [] = 0"
  by (simp add: atoi_def parse_decimal_def signed_value_def)

lemma atoi_no_number:
  assumes "\<not> isdigit c" "c \<noteq> CHR ''+''" "c \<noteq> CHR ''-''" "\<not> isspace c"
  shows "atoi (c # cs) = 0"
  using assms by (simp add: atoi_def parse_decimal_def signed_value_def)

lemma real_sint_bound:
  fixes x :: "'a::len word"
  shows "\<bar>real_of_int (sint x)\<bar> \<le> 2 ^ (LENGTH('a) - 1)"
proof -
  have "\<bar>sint x\<bar> \<le> 2 ^ (LENGTH('a) - 1)"
    using sint_ge [of x] sint_lt [of x] by (simp add: abs_le_iff)
  then have "real_of_int \<bar>sint x\<bar> \<le> real_of_int (2 ^ (LENGTH('a) - 1))"
    by (rule of_int_le_iff [THEN iffD2])
  then show ?thesis by (simp del: of_int_sint)
qed

lemma long_of_double_offset:
  "\<exists>v. long_of_double (ddiv (dmul (double_of_long val) (res aref)) (double_of_int 1000)) = Some v"
proof -
  define a where "a = real_of_int (sint val)"
  define b where "b = real_of_int (sint aref)"
  define r where "r = a * (b / 1024) / 1000"
  have a: "\<bar>a\<bar> \<le> 2 ^ 31"
    using real_sint_bound [of val] unfolding a_def by simp
  have b: "\<bar>b\<bar> \<le> 2 ^ 15"
    using real_sint_bound [of aref] unfolding b_def by simp
  have "\<bar>a * b\<bar> \<le> 2 ^ 31 * 2 ^ 15"
    unfolding abs_mult using a b by (intro mult_mono) simp_all
  then have r: "\<bar>r\<bar> \<le> 2 ^ 30"
    unfolding r_def by (simp add: abs_le_iff)
  have t: "- (2 ^ 31) \<le> trunc r \<and> trunc r < 2 ^ 31"
    using r unfolding trunc_def by (auto simp: abs_le_iff floor_less_iff le_ceiling_iff)
  have "ddiv (dmul (double_of_long val) (res aref)) (double_of_int 1000) = Finite r"
    unfolding double_of_long_def double_of_int_def res_def r_def a_def b_def
    by (simp del: of_int_sint)
  with t show ?thesis
    by simp
qed

section \<open>Executing a command\<close>

lemma atoi_bare: "atoi (replicate k NUL) = 0"
  using atoi_padded [of "[]" k] by (simp add: atoi_empty)

lemma execute_command_rejects:
  assumes "cmd \<notin> set ''RZTFKU''" "sint (atoi buf) < 0"
  shows "execute_command reset rd aref cmd buf w = Inr w"
  using assms by (simp add: execute_command_def)

lemma eeprom_Serial_print [simp]: "eeprom (Serial_print s w) = eeprom w"
  by (simp add: Serial_print_def)

lemma settings_Serial_print [simp]: "settings (Serial_print s w) = settings w"
  by (simp add: Serial_print_def)

lemma eeprom_Serial_println [simp]: "eeprom (Serial_println s w) = eeprom w"
  by (simp add: Serial_println_def)

lemma settings_Serial_println [simp]: "settings (Serial_println s w) = settings w"
  by (simp add: Serial_println_def)

lemma eeprom_dumpSettings: "eeprom (dumpSettings w) = eeprom w"
  by (simp add: dumpSettings_def Let_def Serial_print_int_def Serial_println_int_def)

lemma settings_dumpSettings: "settings (dumpSettings w) = settings w"
  by (simp add: dumpSettings_def Let_def Serial_print_int_def Serial_println_int_def)

lemma eeprom_saveSettings: "eeprom (saveSettings w) = settings (saveSettings w) # eeprom w"
  by (simp add: saveSettings_def)

lemma execute_command_saves:
  assumes "\<And>x. eeprom (reset x) = eeprom x"
    and "cmd \<in> set ''RZTFKU'' \<or> 0 \<le> sint (atoi buf)"
  shows "\<exists>w'. execute_command reset rd aref cmd buf w = Inr w' \<and> eeprom w' = settings w' # eeprom w"
proof -
  obtain v where v: "long_of_double (ddiv (dmul (double_of_long
      (sum_samples rd (ucast (currentpin (settings w))) (adc_reads w) 1000 0)) (res aref)) (double_of_int 1000)) = Some v"
    using long_of_double_offset by blast
  consider "cmd = CHR ''R''" | "cmd = CHR ''Z''" | "cmd = CHR ''T''" | "cmd = CHR ''F''"
    | "cmd = CHR ''K''" | "cmd = CHR ''U''" | "cmd \<notin> set ''RZTFKU''" "0 \<le> sint (atoi buf)"
    using assms(2) by auto
  then show ?thesis
  proof cases
    case 1
    then show ?thesis by (simp add: execute_command_def saveSettings_def assms(1))
  next
    case 2
    then show ?thesis by (simp add: execute_command_def saveSettings_def eeprom_dumpSettings)
  next
    case 3
    then show ?thesis
      by (simp add: execute_command_def v Let_def saveSettings_def Serial_println_long_def)
  next
    case 4
    then show ?thesis by (simp add: execute_command_def Let_def saveSettings_def)
  next
    case 5
    then show ?thesis by (simp add: execute_command_def Let_def saveSettings_def)
  next
    case 6
    then show ?thesis by (simp add: execute_command_def Let_def saveSettings_def)
  next
    case 7
    then show ?thesis
      by (simp add: execute_command_def Let_def saveSettings_def Serial_print_int_def digitalWrite_def)
  qed
qed

lemma atoi_minus_5: "sint (atoi ''-5'') < 0"
  by (simp add: atoi_def parse_decimal_def signed_value_def isspace_def isdigit_def)

lemma atol_minus_5: "sint (atol ''-5'') < 0"
  by (simp add: atol_def parse_decimal_def signed_value_def isspace_def isdigit_def)

lemma atoi_50: "atoi ''50'' = 50"
  by (simp add: atoi_def parse_decimal_def signed_value_def isspace_def isdigit_def)

lemma atoi_space_7: "atoi '' 7'' = 7"
  by (simp add: atoi_def parse_decimal_def signed_value_def isspace_def isdigit_def)

lemma show_int_0: "show_int 0 = ''0''"
  by code_simp

lemma show_int_7: "show_int 7 = ''7''"
  by code_simp

lemma show_int_50: "show_int 50 = ''50''"
  by code_simp

lemma period_command:
  assumes "serial_in w = CHR ''#'' # CHR ''P'' # payload" and "length payload \<le> 57"
    and "0 \<le> sint (atoi payload)"
  shows "serParseCommand reset rd aref w =
           Inr (w\<lparr>serial_in := [],
                  settings := (settings w)\<lparr>period := atoi payload\<rparr>,
                  serial_out := serial_out w @ ''@period: '' @ show_int (sint (atoi payload)) @ ''ms'' @ CRLF,
                  eeprom := (settings w)\<lparr>period := atoi payload\<rparr> # eeprom w\<rparr>)"
  using assms
  by (simp add: serParseCommand_frame execute_command_def atoi_padded Let_def saveSettings_def
        Serial_print_int_def Serial_println_def Serial_print_def)

lemma numeric_command_rejected:
  assumes "serial_in w = CHR ''#'' # cmd # payload" and "length payload \<le> 57"
    and "cmd \<notin> set ''RZTFKU''" and "sint (atoi payload) < 0"
  shows "serParseCommand reset rd aref w = Inr (w\<lparr>serial_in := []\<rparr>)"
  using assms
  by (simp add: serParseCommand_frame execute_command_rejects atoi_padded del: set_simps)

lemma example_frame:
  "serial_in (example_world\<lparr>serial_in := CHR ''#'' # cmd # payload\<rparr>) = CHR ''#'' # cmd # payload"
  by simp

lemma example_consumed: "example_world\<lparr>serial_in := []\<rparr> = example_world"
  by (simp add: example_world_def)

lemma atol_minus_5_value: "atol ''-5'' = - 5"
  by (simp add: atol_def parse_decimal_def signed_value_def isspace_def isdigit_def)

lemma atoi_minus_5_value: "atoi ''-5'' = - 5"
  by (simp add: atoi_def parse_decimal_def signed_value_def isspace_def isdigit_def)

lemma feedid_command:
  assumes "serial_in w = CHR ''#'' # CHR ''F'' # payload" and "length payload \<le> 57"
  shows "serParseCommand reset rd aref w =
           Inr (if 0 \<le> sint (atol payload)
                then w\<lparr>serial_in := [],
                       settings := (settings w)\<lparr>feedid := atol payload\<rparr>,
                       eeprom := (settings w)\<lparr>feedid := atol payload\<rparr> # eeprom w\<rparr>
                else w\<lparr>serial_in := [], eeprom := settings w # eeprom w\<rparr>)"
  using assms
  by (simp add: serParseCommand_frame execute_command_def atol_padded Let_def saveSettings_def)

section \<open>Negative numeric payloads\<close>

text \<open>
  C1, as the code has it. For a frame of at most 59 bytes: a command \<^verbatim>\<open>P\<close>, \<^verbatim>\<open>A\<close>, \<^verbatim>\<open>B\<close>,
  \<^verbatim>\<open>C\<close>, \<^verbatim>\<open>D\<close> or \<^verbatim>\<open>S\<close> whose payload is negative under \<^verbatim>\<open>atoi\<close> changes nothing but the
  consumed input (no field of the settings, no output, no EEPROM write); a command
  \<^verbatim>\<open>F\<close> whose payload is negative under \<^verbatim>\<open>atol\<close> leaves the settings unchanged too, but
  does write them to the EEPROM once. \<^verbatim>\<open>#P-5\<close> leaves the period unchanged and unsaved;
  \<^verbatim>\<open>#P50\<close> sets the period to 50, echoes it and saves the settings.
\<close>

theorem negative_payload:
  assumes "serial_in w = CHR ''#'' # cmd # payload" and "length payload \<le> 57"
  shows "(cmd \<in> set ''PABCDS'' \<and> sint (atoi payload) < 0 \<longrightarrow>
            serParseCommand reset rd aref w = Inr (w\<lparr>serial_in := []\<rparr>))
       \<and> (cmd = CHR ''F'' \<and> sint (atol payload) < 0 \<longrightarrow>
            serParseCommand reset rd aref w =
              Inr (w\<lparr>serial_in := [], eeprom := settings w # eeprom w\<rparr>))
       \<and> (cmd = CHR ''P'' \<and> payload = ''-5'' \<longrightarrow>
            serParseCommand reset rd aref w = Inr (w\<lparr>serial_in := []\<rparr>))
       \<and> (cmd = CHR ''P'' \<and> payload = ''50'' \<longrightarrow>
            serParseCommand reset rd aref w =
              Inr (w\<lparr>serial_in := [],
                     settings := (settings w)\<lparr>period := 50\<rparr>,
                     serial_out := serial_out w @ ''@period: 50ms'' @ CRLF,
                     eeprom := (settings w)\<lparr>period := 50\<rparr> # eeprom w\<rparr>))"
proof (intro conjI impI)
  assume "cmd \<in> set ''PABCDS'' \<and> sint (atoi payload) < 0"
  then have "cmd \<notin> set ''RZTFKU''" and "sint (atoi payload) < 0" by auto
  with assms show "serParseCommand reset rd aref w = Inr (w\<lparr>serial_in := []\<rparr>)"
    by (rule numeric_command_rejected)
next
  assume "cmd = CHR ''F'' \<and> sint (atol payload) < 0"
  with assms show "serParseCommand reset rd aref w =
      Inr (w\<lparr>serial_in := [], eeprom := settings w # eeprom w\<rparr>)"
    by (simp add: serParseCommand_frame execute_command_def atol_padded Let_def saveSettings_def)
next
  assume "cmd = CHR ''P'' \<and> payload = ''-5''"
  then have "cmd \<notin> set ''RZTFKU''" and "sint (atoi payload) < 0"
    by (simp_all add: atoi_minus_5)
  with assms show "serParseCommand reset rd aref w = Inr (w\<lparr>serial_in := []\<rparr>)"
    by (rule numeric_command_rejected)
next
  assume a: "cmd = CHR ''P'' \<and> payload = ''50''"
  with assms have "serial_in w = CHR ''#'' # CHR ''P'' # payload" by simp
  from period_command [OF this assms(2), of reset rd aref] a
  show "serParseCommand reset rd aref w =
      Inr (w\<lparr>serial_in := [], settings := (settings w)\<lparr>period := 50\<rparr>,
             serial_out := serial_out w @ ''@period: 50ms'' @ CRLF,
             eeprom := (settings w)\<lparr>period := 50\<rparr> # eeprom w\<rparr>)"
    by (simp add: atoi_50 show_int_50)
qed

theorem negative_payload_witness:
  "length ''-5'' \<le> 57 \<and> sint (atoi ''-5'') < 0 \<and> sint (atol ''-5'') < 0
   \<and> serParseCommand example_reset example_adc 5000 (example_world\<lparr>serial_in := ''#P-5''\<rparr>)
       = Inr example_world
   \<and> serParseCommand example_reset example_adc 5000 (example_world\<lparr>serial_in := ''#D-5''\<rparr>)
       = Inr example_world
   \<and> serParseCommand example_reset example_adc 5000 (example_world\<lparr>serial_in := ''#F-5''\<rparr>)
       = Inr (example_world\<lparr>eeprom := [example_settings]\<rparr>)
   \<and> serParseCommand example_reset example_adc 5000 (example_world\<lparr>serial_in := ''#P50''\<rparr>)
       = Inr (example_world\<lparr>settings := example_settings\<lparr>period := 50\<rparr>,
                serial_out := ''@period: 50ms'' @ CRLF,
                eeprom := [example_settings\<lparr>period := 50\<rparr>]\<rparr>)"
proof -
  have len: "length ''-5'' \<le> 57" and len50: "length ''50'' \<le> 57"
    by simp_all
  note p = negative_payload [OF example_frame len, of "CHR ''P''" example_reset example_adc 5000]
  note d = negative_payload [OF example_frame len, of "CHR ''D''" example_reset example_adc 5000]
  note f = negative_payload [OF example_frame len, of "CHR ''F''" example_reset example_adc 5000]
  note q = negative_payload [OF example_frame len50, of "CHR ''P''" example_reset example_adc 5000]
  from p d f q show ?thesis
    by (simp add: atoi_minus_5 atol_minus_5 example_consumed) (simp add: example_world_def)
qed

theorem negative_feedid_counterexample:
  "sint (atol ''-5'') < 0 \<and> eeprom example_world = []
   \<and> serParseCommand example_reset example_adc 5000 (example_world\<lparr>serial_in := ''#F-5''\<rparr>)
       = Inr (example_world\<lparr>eeprom := [example_settings]\<rparr>)"
proof -
  have len: "length ''-5'' \<le> 57" by simp
  from feedid_command [OF example_frame len, of example_reset example_adc 5000]
  show ?thesis
    by (simp add: atol_minus_5_value) (simp add: example_world_def)
qed

section \<open>Input that does not start a frame\<close>

text \<open>
  C3, as the code has it. When the first waiting byte is not \<^verbatim>\<open>#\<close>, \<^verbatim>\<open>serParseCommand\<close>
  consumes that one byte and returns: the other bytes of the batch stay in the receive
  buffer for the next call, no command is executed, no field of the settings changes,
  nothing is written to the serial port and nothing to the EEPROM.
\<close>

theorem first_byte_not_marker:
  assumes "serial_in w = c # rest" and "c \<noteq> CHR ''#''"
  shows "serParseCommand reset rd aref w = Inr (w\<lparr>serial_in := rest\<rparr>)"
  using assms by (rule serParseCommand_not_a_frame)

theorem first_byte_not_marker_witness:
  "CHR ''?'' \<noteq> CHR ''#''
   \<and> serParseCommand example_reset example_adc 5000 (example_world\<lparr>serial_in := ''?#P50''\<rparr>)
       = Inr (example_world\<lparr>serial_in := ''#P50''\<rparr>)"
proof -
  have f: "serial_in (example_world\<lparr>serial_in := ''?#P50''\<rparr>) = CHR ''?'' # ''#P50''"
    and n: "CHR ''?'' \<noteq> CHR ''#''"
    by simp_all
  from first_byte_not_marker [OF f n, of example_reset example_adc 5000] n show ?thesis
    by simp
qed

theorem batch_not_discarded_counterexample:
  "serParseCommand example_reset example_adc 5000 (example_world\<lparr>serial_in := ''XP50''\<rparr>)
     = Inr (example_world\<lparr>serial_in := ''P50''\<rparr>)
   \<and> serial_in (example_world\<lparr>serial_in := ''P50''\<rparr>) \<noteq> []"
proof -
  have f: "serial_in (example_world\<lparr>serial_in := ''XP50''\<rparr>) = CHR ''X'' # ''P50''"
    and n: "CHR ''X'' \<noteq> CHR ''#''"
    by simp_all
  from serParseCommand_not_a_frame [OF f n, of example_reset example_adc 5000] show ?thesis
    by simp
qed

section \<open>Calls of \<^verbatim>\<open>saveSettings\<close>\<close>

lemma example_marker:
  "serial_in (example_world\<lparr>serial_in := CHR ''#'' # rest\<rparr>) = CHR ''#'' # rest"
  by simp

lemma example_reset_eeprom: "eeprom (example_reset x) = eeprom x"
  by (simp add: example_reset_def)

text \<open>
  C2, as the code has it. For a batch of at most 59 bytes that starts with \<^verbatim>\<open>#\<close>, and a
  \<^verbatim>\<open>reset()\<close> that does not write the EEPROM itself: \<^verbatim>\<open>saveSettings\<close> is the last thing
  \<^verbatim>\<open>serParseCommand\<close> does, and it is called once, when the command byte is one of
  \<^verbatim>\<open>R\<close>, \<^verbatim>\<open>Z\<close>, \<^verbatim>\<open>T\<close>, \<^verbatim>\<open>F\<close>, \<^verbatim>\<open>K\<close>, \<^verbatim>\<open>U\<close> or when the payload is not negative under
  \<^verbatim>\<open>atoi\<close>; for any other command byte with a negative payload the call returns before
  it, and only the consumed input has changed.
\<close>

theorem saveSettings_calls:
  assumes "serial_in w = CHR ''#'' # rest" and "length rest \<le> 58"
    and "\<And>x. eeprom (reset x) = eeprom x"
  shows "if command_byte rest \<in> set ''RZTFKU'' \<or> 0 \<le> sint (atoi (drop 1 rest))
         then \<exists>w'. serParseCommand reset rd aref w = Inr w' \<and> eeprom w' = settings w' # eeprom w
         else serParseCommand reset rd aref w = Inr (w\<lparr>serial_in := []\<rparr>)"
proof (cases rest)
  case Nil
  with assms(1) have p: "serParseCommand reset rd aref w =
      execute_command reset rd aref NUL (replicate 60 NUL) (w\<lparr>serial_in := []\<rparr>)"
    by (simp add: serParseCommand_bare_marker)
  have "0 \<le> sint (atoi (replicate 60 NUL))"
    by (simp add: atoi_bare)
  then have "\<exists>w'. execute_command reset rd aref NUL (replicate 60 NUL) (w\<lparr>serial_in := []\<rparr>) = Inr w'
      \<and> eeprom w' = settings w' # eeprom (w\<lparr>serial_in := []\<rparr>)"
    using assms(3) by (intro execute_command_saves) simp_all
  with Nil p show ?thesis
    by (simp add: atoi_empty)
next
  case (Cons cmd payload)
  with assms have fr: "serial_in w = CHR ''#'' # cmd # payload" and len: "length payload \<le> 57"
    by simp_all
  let ?buf = "payload @ replicate (60 - length payload) NUL"
  have p: "serParseCommand reset rd aref w = execute_command reset rd aref cmd ?buf (w\<lparr>serial_in := []\<rparr>)"
    using fr len by (simp add: serParseCommand_frame)
  show ?thesis
  proof (cases "cmd \<in> set ''RZTFKU'' \<or> 0 \<le> sint (atoi payload)")
    case True
    then have "cmd \<in> set ''RZTFKU'' \<or> 0 \<le> sint (atoi ?buf)"
      by (simp only: atoi_padded)
    with assms(3) have "\<exists>w'. execute_command reset rd aref cmd ?buf (w\<lparr>serial_in := []\<rparr>) = Inr w'
        \<and> eeprom w' = settings w' # eeprom (w\<lparr>serial_in := []\<rparr>)"
      by (rule execute_command_saves)
    with True Cons p show ?thesis
      by (simp add: command_byte_def del: set_simps)
  next
    case False
    then have "cmd \<notin> set ''RZTFKU''"
      by blast
    moreover from False have "sint (atoi ?buf) < 0"
      by (simp add: atoi_padded del: set_simps)
    ultimately have "execute_command reset rd aref cmd ?buf (w\<lparr>serial_in := []\<rparr>) = Inr (w\<lparr>serial_in := []\<rparr>)"
      by (rule execute_command_rejects)
    with False Cons p show ?thesis
      by (simp add: command_byte_def del: set_simps)
  qed
qed

theorem saveSettings_calls_witness:
  "length ''Z'' \<le> 58
   \<and> (\<exists>w'. serParseCommand example_reset example_adc 5000 (example_world\<lparr>serial_in := ''#Z''\<rparr>) = Inr w'
          \<and> eeprom w' = settings w' # eeprom example_world)
   \<and> (\<exists>w'. serParseCommand example_reset example_adc 5000 (example_world\<lparr>serial_in := ''#T''\<rparr>) = Inr w'
          \<and> eeprom w' = settings w' # eeprom example_world)
   \<and> (\<exists>w'. serParseCommand example_reset example_adc 5000 (example_world\<lparr>serial_in := ''#R''\<rparr>) = Inr w'
          \<and> eeprom w' = settings w' # eeprom example_world)
   \<and> (\<exists>w'. serParseCommand example_reset example_adc 5000 (example_world\<lparr>serial_in := ''#''\<rparr>) = Inr w'
          \<and> eeprom w' = settings w' # eeprom example_world)
   \<and> serParseCommand example_reset example_adc 5000 (example_world\<lparr>serial_in := ''#A-5''\<rparr>)
       = Inr example_world"
proof -
  have l1: "length ''Z'' \<le> 58" and l0: "length '''' \<le> 58" and l3: "length ''A-5'' \<le> 58"
    and lt: "length ''T'' \<le> 58" and lr: "length ''R'' \<le> 58"
    by simp_all
  note z = saveSettings_calls [OF example_marker l1 example_reset_eeprom, where rd = example_adc and aref = 5000]
  note t = saveSettings_calls [OF example_marker lt example_reset_eeprom, where rd = example_adc and aref = 5000]
  note r = saveSettings_calls [OF example_marker lr example_reset_eeprom, where rd = example_adc and aref = 5000]
  note e = saveSettings_calls [OF example_marker l0 example_reset_eeprom, where rd = example_adc and aref = 5000]
  note a = saveSettings_calls [OF example_marker l3 example_reset_eeprom, where rd = example_adc and aref = 5000]
  from z t r e a show ?thesis
    by (simp add: command_byte_def atoi_empty atoi_minus_5_value example_consumed)
qed

theorem negative_not_saved_counterexample:
  "sint (atoi ''-5'') < 0 \<and> eeprom example_world = []
   \<and> serParseCommand example_reset example_adc 5000 (example_world\<lparr>serial_in := ''#A-5''\<rparr>)
       = Inr example_world"
proof -
  have len: "length ''-5'' \<le> 57" and c: "CHR ''A'' \<notin> set ''RZTFKU''"
    by simp_all
  from numeric_command_rejected [OF example_frame len c atoi_minus_5, of example_reset example_adc 5000]
  show ?thesis
    by (simp add: atoi_minus_5 example_consumed) (simp add: example_world_def)
qed

section \<open>The relay switch\<close>

lemma atoi_1: "atoi ''1'' = 1"
  by (simp add: atoi_def parse_decimal_def signed_value_def isspace_def isdigit_def)

lemma atoi_0: "atoi ''0'' = 0"
  by (simp add: atoi_def parse_decimal_def signed_value_def isspace_def isdigit_def)

lemma atoi_minus_1_value: "atoi ''-1'' = - 1"
  by (simp add: atoi_def parse_decimal_def signed_value_def isspace_def isdigit_def)

lemma switch_frame:
  "serial_in (example_world\<lparr>serial_in := CHR ''#'' # CHR ''S'' # payload\<rparr>)
     = CHR ''#'' # CHR ''S'' # payload"
  by simp

lemma period_frame:
  "serial_in (example_world\<lparr>serial_in := CHR ''#'' # CHR ''P'' # payload\<rparr>)
     = CHR ''#'' # CHR ''P'' # payload"
  by simp

text \<open>
  C5, as the code has it. For a frame \<^verbatim>\<open>S\<close> of at most 59 bytes: a payload greater than 0
  echoes \<^verbatim>\<open>@switch: high\<close> and drives the relay pin high; the payload 0 echoes
  \<^verbatim>\<open>@switch: low\<close> and drives the pin low; both save the settings. A negative payload does
  neither: the pin is not written, nothing is echoed, nothing is saved.
\<close>

theorem switch_command:
  assumes "serial_in w = CHR ''#'' # CHR ''S'' # payload" and "length payload \<le> 57"
  shows "(0 < sint (atoi payload) \<longrightarrow>
            serParseCommand reset rd aref w =
              Inr (w\<lparr>serial_in := [],
                     serial_out := serial_out w @ ''@switch: high'' @ CRLF,
                     pin_writes := (ucast (relaypin (settings w)), True) # pin_writes w,
                     eeprom := settings w # eeprom w\<rparr>))
       \<and> (atoi payload = 0 \<longrightarrow>
            serParseCommand reset rd aref w =
              Inr (w\<lparr>serial_in := [],
                     serial_out := serial_out w @ ''@switch: low'' @ CRLF,
                     pin_writes := (ucast (relaypin (settings w)), False) # pin_writes w,
                     eeprom := settings w # eeprom w\<rparr>))
       \<and> (sint (atoi payload) < 0 \<longrightarrow>
            serParseCommand reset rd aref w = Inr (w\<lparr>serial_in := []\<rparr>))"
  using assms
  by (simp add: serParseCommand_frame execute_command_def atoi_padded Let_def saveSettings_def
        digitalWrite_def Serial_println_def Serial_print_def)

theorem switch_command_witness:
  "length ''1'' \<le> 57 \<and> 0 < sint (atoi ''1'') \<and> atoi ''0'' = 0 \<and> sint (atoi ''-1'') < 0
   \<and> serParseCommand example_reset example_adc 5000 (example_world\<lparr>serial_in := ''#S1''\<rparr>)
       = Inr (example_world\<lparr>serial_out := ''@switch: high'' @ CRLF,
                pin_writes := [(2, True)], eeprom := [example_settings]\<rparr>)
   \<and> serParseCommand example_reset example_adc 5000 (example_world\<lparr>serial_in := ''#S0''\<rparr>)
       = Inr (example_world\<lparr>serial_out := ''@switch: low'' @ CRLF,
                pin_writes := [(2, False)], eeprom := [example_settings]\<rparr>)
   \<and> serParseCommand example_reset example_adc 5000 (example_world\<lparr>serial_in := ''#S-1''\<rparr>)
       = Inr example_world"
proof -
  have l1: "length ''1'' \<le> 57" and l0: "length ''0'' \<le> 57" and lm: "length ''-1'' \<le> 57"
    by simp_all
  note h = switch_command [OF switch_frame l1, where reset = example_reset and rd = example_adc and aref = 5000]
  note l = switch_command [OF switch_frame l0, where reset = example_reset and rd = example_adc and aref = 5000]
  note n = switch_command [OF switch_frame lm, where reset = example_reset and rd = example_adc and aref = 5000]
  from h l n show ?thesis
    by (simp add: atoi_1 atoi_0 atoi_minus_1_value example_consumed)
       (simp add: example_world_def example_settings_def)
qed

theorem negative_switch_counterexample:
  "sint (atoi ''-1'') < 0 \<and> serial_out example_world = [] \<and> pin_writes example_world = []
   \<and> serParseCommand example_reset example_adc 5000 (example_world\<lparr>serial_in := ''#S-1''\<rparr>)
       = Inr example_world"
proof -
  have len: "length ''-1'' \<le> 57" and c: "CHR ''S'' \<notin> set ''RZTFKU''"
    and neg: "sint (atoi ''-1'') < 0"
    by (simp_all add: atoi_minus_1_value)
  from numeric_command_rejected [OF example_frame len c neg, of example_reset example_adc 5000]
  show ?thesis
    by (simp add: neg example_consumed) (simp add: example_world_def)
qed

section \<open>A zero period\<close>

text \<open>
  C9, as the code has it. For a frame \<^verbatim>\<open>P\<close> of at most 59 bytes whose payload is 0 under
  \<^verbatim>\<open>atoi\<close>, the period becomes 0, \<^verbatim>\<open>@period: 0ms\<close> is echoed and the settings are saved.
  The empty payload is 0 under \<^verbatim>\<open>atoi\<close>, and so is every payload whose first character
  is not a digit, a sign or white space.
\<close>

theorem zero_period:
  assumes "serial_in w = CHR ''#'' # CHR ''P'' # payload" and "length payload \<le> 57"
  shows "(atoi payload = 0 \<longrightarrow>
            serParseCommand reset rd aref w =
              Inr (w\<lparr>serial_in := [],
                     settings := (settings w)\<lparr>period := 0\<rparr>,
                     serial_out := serial_out w @ ''@period: 0ms'' @ CRLF,
                     eeprom := (settings w)\<lparr>period := 0\<rparr> # eeprom w\<rparr>))
       \<and> (payload = [] \<longrightarrow> atoi payload = 0)
       \<and> (\<forall>c cs. payload = c # cs \<and> \<not> isdigit c \<and> c \<noteq> CHR ''+'' \<and> c \<noteq> CHR ''-'' \<and> \<not> isspace c
             \<longrightarrow> atoi payload = 0)"
proof (intro conjI impI allI)
  assume z: "atoi payload = 0"
  then have "0 \<le> sint (atoi payload)" by simp
  from period_command [OF assms this, of reset rd aref] z
  show "serParseCommand reset rd aref w =
      Inr (w\<lparr>serial_in := [], settings := (settings w)\<lparr>period := 0\<rparr>,
             serial_out := serial_out w @ ''@period: 0ms'' @ CRLF,
             eeprom := (settings w)\<lparr>period := 0\<rparr> # eeprom w\<rparr>)"
    by (simp add: show_int_0)
next
  assume "payload = []"
  then show "atoi payload = 0" by (simp add: atoi_empty)
next
  fix c cs
  assume "payload = c # cs \<and> \<not> isdigit c \<and> c \<noteq> CHR ''+'' \<and> c \<noteq> CHR ''-'' \<and> \<not> isspace c"
  then show "atoi payload = 0" by (simp add: atoi_no_number)
qed

lemma atoi_x: "atoi ''x1'' = 0"
  by (simp add: atoi_def parse_decimal_def signed_value_def isspace_def isdigit_def)

theorem zero_period_witness:
  "length '''' \<le> 57 \<and> atoi '''' = 0 \<and> atoi ''x1'' = 0
   \<and> \<not> isdigit (CHR ''x'') \<and> \<not> isspace (CHR ''x'')
   \<and> serParseCommand example_reset example_adc 5000 (example_world\<lparr>serial_in := ''#P''\<rparr>)
       = Inr (example_world\<lparr>settings := example_settings\<lparr>period := 0\<rparr>,
                serial_out := ''@period: 0ms'' @ CRLF,
                eeprom := [example_settings\<lparr>period := 0\<rparr>]\<rparr>)
   \<and> serParseCommand example_reset example_adc 5000 (example_world\<lparr>serial_in := ''#Px1''\<rparr>)
       = Inr (example_world\<lparr>settings := example_settings\<lparr>period := 0\<rparr>,
                serial_out := ''@period: 0ms'' @ CRLF,
                eeprom := [example_settings\<lparr>period := 0\<rparr>]\<rparr>)"
proof -
  have l0: "length '''' \<le> 57" and lx: "length ''x1'' \<le> 57"
    by simp_all
  note e = zero_period [OF period_frame l0, where reset = example_reset and rd = example_adc and aref = 5000]
  note x = zero_period [OF period_frame lx, where reset = example_reset and rd = example_adc and aref = 5000]
  from e x show ?thesis
    by (simp add: atoi_empty atoi_x example_consumed isdigit_def isspace_def)
       (simp add: example_world_def)
qed

theorem leading_space_counterexample:
  "\<not> isdigit (CHR '' '') \<and> CHR '' '' \<noteq> CHR ''+'' \<and> CHR '' '' \<noteq> CHR ''-''
   \<and> serParseCommand example_reset example_adc 5000 (example_world\<lparr>serial_in := ''#P 7''\<rparr>)
       = Inr (example_world\<lparr>settings := example_settings\<lparr>period := 7\<rparr>,
                serial_out := ''@period: 7ms'' @ CRLF,
                eeprom := [example_settings\<lparr>period := 7\<rparr>]\<rparr>)"
proof -
  have len: "length '' 7'' \<le> 57" and pos: "0 \<le> sint (atoi '' 7'')"
    by (simp_all add: atoi_space_7)
  from period_command [OF period_frame len pos, of example_reset example_adc 5000]
  show ?thesis
    by (simp add: atoi_space_7 show_int_7 example_consumed isdigit_def)
       (simp add: example_world_def)
qed

section \<open>Frames longer than the buffer\<close>

lemma long_frame_overflows:
  assumes "serial_in w = CHR ''#'' # rest" and "59 \<le> length rest"
  shows "serParseCommand reset rd aref w = Inl BufferOverflow"
proof (cases rest)
  case Nil
  with assms(2) show ?thesis by simp
next
  case (Cons cmd payload)
  with assms have "serial_in w = CHR ''#'' # cmd # payload" and "\<not> length payload \<le> 57"
    by simp_all
  then show ?thesis
    by (simp add: serParseCommand_frame)
qed

lemma cstring_no_NUL: "NUL \<notin> set p \<Longrightarrow> cstring p = p"
  by (auto simp: cstring_def)

lemma apikey_truncated:
  assumes "NUL \<notin> set payload" and "48 \<le> length payload"
  shows "(strncpy payload 49)[48 := NUL] = take 48 payload @ [NUL]"
proof (cases "length payload = 48")
  case True
  then show ?thesis
    using assms by (simp add: strncpy_def cstring_no_NUL list_update_append)
next
  case False
  with assms have l: "48 < length payload" by simp
  then have "take 49 payload = take 48 payload @ [payload ! 48]"
    using take_Suc_conv_app_nth [of 48 payload] by simp
  with l assms show ?thesis
    by (simp add: strncpy_def cstring_no_NUL list_update_append)
qed

lemma apikey_short:
  assumes "NUL \<notin> set payload" and "length payload < 48"
  shows "(strncpy payload 49)[48 := NUL] = payload @ replicate (49 - length payload) NUL"
  using assms
  by (simp add: strncpy_def cstring_no_NUL list_update_append replicate_update_same)

lemma apikey_command:
  assumes "serial_in w = CHR ''#'' # CHR ''K'' # payload" and "length payload \<le> 57"
  shows "serParseCommand reset rd aref w =
           Inr (w\<lparr>serial_in := [],
                  settings := (settings w)\<lparr>apikey := (strncpy payload 49)[48 := NUL]\<rparr>,
                  eeprom := (settings w)\<lparr>apikey := (strncpy payload 49)[48 := NUL]\<rparr> # eeprom w\<rparr>)"
  using assms
  by (simp add: serParseCommand_frame execute_command_def strncpy_padded Let_def saveSettings_def)

lemma apikey_terminated:
  "length ((strncpy payload 49)[48 := NUL]) = 49 \<and> (strncpy payload 49)[48 := NUL] ! 48 = NUL"
  by (simp add: strncpy_def)

lemma unknown_command:
  assumes "serial_in w = CHR ''#'' # cmd # payload" and "length payload \<le> 57"
    and "cmd \<notin> set ''RZTFKUPABCDS''"
  shows "serParseCommand reset rd aref w =
           Inr (if sint (atoi payload) < 0 then w\<lparr>serial_in := []\<rparr>
                else w\<lparr>serial_in := [], eeprom := settings w # eeprom w\<rparr>)"
  using assms
  by (simp add: serParseCommand_frame execute_command_def atoi_padded Let_def saveSettings_def)

text \<open>
  C4. The claim is that every write of a \<^verbatim>\<open>K\<close> frame stays in bounds, whatever the length
  of the payload, and that the key is then the first 48 payload characters and a NUL. The
  code does the second for a frame of at most 59 bytes (\<open>apikey_command\<close>,
  \<open>apikey_truncated\<close>), but a frame of 60 bytes writes the terminator at
  \<^verbatim>\<open>inputBytes[60]\<close>, and a payload of 70 characters is copied up to \<^verbatim>\<open>inputBytes[69]\<close>:
  both leave the 60 bytes of the buffer.
\<close>

theorem apikey_frame_overflows:
  "serParseCommand example_reset example_adc 5000
     (example_world\<lparr>serial_in := ''#K'' @ replicate 58 (CHR ''a'')\<rparr>) = Inl BufferOverflow
   \<and> serParseCommand example_reset example_adc 5000
     (example_world\<lparr>serial_in := ''#K'' @ replicate 70 (CHR ''a'')\<rparr>) = Inl BufferOverflow"
proof -
  have "serial_in (example_world\<lparr>serial_in := ''#K'' @ replicate n (CHR ''a'')\<rparr>)
      = CHR ''#'' # (CHR ''K'' # replicate n (CHR ''a''))" for n
    by simp
  then have "58 \<le> n \<Longrightarrow> serParseCommand example_reset example_adc 5000
      (example_world\<lparr>serial_in := ''#K'' @ replicate n (CHR ''a'')\<rparr>) = Inl BufferOverflow" for n
    by (rule long_frame_overflows) simp
  from this [of 58] this [of 70] show ?thesis
    by simp
qed

text \<open>
  C10. The claim is that a command byte outside \<^verbatim>\<open>RZTFKUPABCDS\<close> changes no field of the
  settings and echoes nothing, whatever the payload. The code does so for a frame of at
  most 59 bytes (\<open>unknown_command\<close>); a frame of 60 bytes writes the terminator outside
  \<^verbatim>\<open>inputBytes\<close> before the command is looked at.
\<close>

theorem unrecognised_frame_overflows:
  "CHR ''Q'' \<notin> set ''RZTFKUPABCDS''
   \<and> serParseCommand example_reset example_adc 5000
     (example_world\<lparr>serial_in := ''#Q'' @ replicate 58 (CHR ''a'')\<rparr>) = Inl BufferOverflow"
proof -
  have "serial_in (example_world\<lparr>serial_in := ''#Q'' @ replicate 58 (CHR ''a'')\<rparr>)
      = CHR ''#'' # (CHR ''Q'' # replicate 58 (CHR ''a''))"
    by simp
  then have "serParseCommand example_reset example_adc 5000
      (example_world\<lparr>serial_in := ''#Q'' @ replicate 58 (CHR ''a'')\<rparr>) = Inl BufferOverflow"
    by (rule long_frame_overflows) simp
  then show ?thesis
    by simp
qed

end
